theory Spec2Isabelle
  imports Main "HOL-Library.Sublist" "HOL-Library.Char_ord" "HOL-Library.List_Lexorder"
begin

section \<open>Strings and regular expressions of the source\<close>

text \<open>
  Source strings are modelled as \<^typ>\<open>string\<close>. The two regular expressions of the source
  accept ASCII characters only, so a string with any other character is refused by them
  whatever its encoding. The two quote characters that the source writes inside template
  literals get names, since they cannot be written inside a string literal here.
\<close>

definition dquote :: char where
  "dquote = CHR 0x22"

definition squote :: char where
  "squote = CHR 0x27"

text \<open>\<^verbatim>\<open>Array.prototype.join\<close>.\<close>

fun join :: "string \<Rightarrow> string list \<Rightarrow> string" where
  "join sep [] = []"
| "join sep [x] = x"
| "join sep (x # y # r) = x @ sep @ join sep (y # r)"

definition lower_letters :: string where
  "lower_letters = ''abcdefghijklmnopqrstuvwxyz''"

definition upper_letters :: string where
  "upper_letters = ''ABCDEFGHIJKLMNOPQRSTUVWXYZ''"

definition digit_chars :: string where
  "digit_chars = ''0123456789''"

text \<open>
  The source uses two regular expressions, both of the shape \<^verbatim>\<open>/^ ... $/\<close> without the
  multiline flag, built from single characters and character classes under a fixed repetition
  count \<^verbatim>\<open>{n}\<close> or a star. A class is kept as the list of its members (a range
  \<^verbatim>\<open>a-f\<close> is written out). \<open>matches ic r s\<close> is \<^verbatim>\<open>r.test(s)\<close>; \<open>ic\<close> is the
  \<^verbatim>\<open>i\<close> flag. Under that flag a pattern character and an input character agree when
  their canonical forms (upper case) agree; \<open>canonicalize\<close> maps \<^verbatim>\<open>a-z\<close> to
  \<^verbatim>\<open>A-Z\<close> and leaves every other character alone, which is what the language does on
  the characters that can agree with the ASCII-only patterns used here.
\<close>

datatype atom = Lit char | Class string

datatype quant = Exactly nat | Star

type_synonym regex = "(atom \<times> quant) list"

definition canonicalize :: "char \<Rightarrow> char" where
  "canonicalize c = (case map_of (zip lower_letters upper_letters) c of Some u \<Rightarrow> u | None \<Rightarrow> c)"

fun atom_chars :: "atom \<Rightarrow> string" where
  "atom_chars (Lit c) = [c]"
| "atom_chars (Class cs) = cs"

definition atom_matches :: "bool \<Rightarrow> atom \<Rightarrow> char \<Rightarrow> bool" where
  "atom_matches ic a c =
     (if ic then canonicalize c \<in> canonicalize ` set (atom_chars a)
      else c \<in> set (atom_chars a))"

fun matches :: "bool \<Rightarrow> regex \<Rightarrow> string \<Rightarrow> bool" where
  "matches ic [] s = (s = [])"
| "matches ic ((a, Exactly 0) # r) s = matches ic r s"
| "matches ic ((a, Exactly (Suc n)) # r) [] = False"
| "matches ic ((a, Exactly (Suc n)) # r) (c # s) =
     (atom_matches ic a c \<and> matches ic ((a, Exactly n) # r) s)"
| "matches ic ((a, Star) # r) [] = matches ic r []"
| "matches ic ((a, Star) # r) (c # s) =
     (matches ic r (c # s) \<or> (atom_matches ic a c \<and> matches ic ((a, Star) # r) s))"

text \<open>\<^verbatim>\<open>String.prototype.toLowerCase\<close>, on the ASCII letters.\<close>

definition toLowerCase :: "string \<Rightarrow> string" where
  "toLowerCase s =
     map (\<lambda>c. case map_of (zip upper_letters lower_letters) c of Some l \<Rightarrow> l | None \<Rightarrow> c) s"

section \<open>Row-level security: the tenant wrapper\<close>

text \<open>
  \<^verbatim>\<open>const UUID_REGEX =
  /^[0-9a-f]{8}-[0-9a-f]{4}-4[0-9a-f]{3}-[89ab][0-9a-f]{3}-[0-9a-f]{12}$/i;\<close>
\<close>

definition hex_class :: atom where
  "hex_class = Class ''0123456789abcdef''"

definition UUID_REGEX :: regex where
  "UUID_REGEX =
     [(hex_class, Exactly 8), (Lit CHR ''-'', Exactly 1),
      (hex_class, Exactly 4), (Lit CHR ''-'', Exactly 1),
      (Lit CHR ''4'', Exactly 1), (hex_class, Exactly 3), (Lit CHR ''-'', Exactly 1),
      (Class ''89ab'', Exactly 1), (hex_class, Exactly 3), (Lit CHR ''-'', Exactly 1),
      (hex_class, Exactly 12)]"

text \<open>
  What \<open>withTenant\<close> throws: either an \<^verbatim>\<open>Error\<close> it constructs itself, or whatever
  the database driver or the caller's operation threw, passed on unchanged.
\<close>

datatype 'e thrown = Error string | Thrown 'e

text \<open>
  \<open>withTenant\<close>. The driver is not part of the repository: \<^verbatim>\<open>appDb.transaction\<close>
  and \<^verbatim>\<open>tx.execute\<close> are parameters, acting on a connection state \<open>'db\<close> and a
  transaction state \<open>'tx\<close> of the driver's choosing. Every contact with the database goes
  through one of the two.
\<close>

definition withTenant ::
  "(('tx \<Rightarrow> ('e + 'a) \<times> 'tx) \<Rightarrow> 'db \<Rightarrow> ('e + 'a) \<times> 'db) \<Rightarrow>
   (string \<Rightarrow> 'tx \<Rightarrow> ('e + unit) \<times> 'tx) \<Rightarrow>
   string \<Rightarrow> ('tx \<Rightarrow> ('e + 'a) \<times> 'tx) \<Rightarrow> 'db \<Rightarrow> ('e thrown + 'a) \<times> 'db" where
  "withTenant transaction execute tenantId operation conn =
     (if \<not> matches True UUID_REGEX tenantId
      then (Inl (Error (''Invalid tenantId: must be a valid UUID, got: '' @ tenantId)), conn)
      else
        (case transaction
               (\<lambda>tx. case execute (''SET LOCAL app.tenant_id = '' @ [squote] @ tenantId @ [squote]) tx of
                        (Inl e, tx') \<Rightarrow> (Inl e, tx')
                      | (Inr _, tx') \<Rightarrow> operation tx') conn of
           (Inl e, conn') \<Rightarrow> (Inl (Thrown e), conn')
         | (Inr a, conn') \<Rightarrow> (Inr a, conn')))"

text \<open>
  The canonical UUID grammar in the specification's words: five groups of 8, 4, 4, 4 and 12
  hexadecimal digits separated by hyphens, the first digit of the third group being the
  version nibble 4 and the first digit of the fourth group a variant nibble among 8, 9, a, b.
  A nibble is the value of a hexadecimal digit, so a digit counts in either case.
\<close>

datatype uuid_position = HexDigit | Hyphen | VersionNibble | VariantNibble

definition hex_value :: "char \<Rightarrow> nat option" where
  "hex_value =
     map_of (zip ''0123456789abcdef'' [0 ..< 16] @ zip ''ABCDEF'' [10 ..< 16])"

fun fits :: "uuid_position \<Rightarrow> char \<Rightarrow> bool" where
  "fits HexDigit c = (hex_value c \<noteq> None)"
| "fits Hyphen c = (c = CHR ''-'')"
| "fits VersionNibble c = (hex_value c = Some 4)"
| "fits VariantNibble c = (hex_value c \<in> {Some 8, Some 9, Some 10, Some 11})"

definition uuid_layout :: "uuid_position list" where
  "uuid_layout =
     replicate 8 HexDigit @ [Hyphen] @ replicate 4 HexDigit @ [Hyphen] @
     [VersionNibble] @ replicate 3 HexDigit @ [Hyphen] @
     [VariantNibble] @ replicate 3 HexDigit @ [Hyphen] @ replicate 12 HexDigit"

definition canonical_uuid :: "string \<Rightarrow> bool" where
  "canonical_uuid s = list_all2 fits uuid_layout s"

text \<open>
  A small driver to run \<open>withTenant\<close> on: the connection is the list of statements it has
  been sent; a transaction is bracketed by \<^verbatim>\<open>begin\<close> and \<^verbatim>\<open>commit\<close> or
  \<^verbatim>\<open>rollback\<close>.
\<close>

definition log_transaction ::
  "(string list \<Rightarrow> (string + 'a) \<times> string list) \<Rightarrow> string list \<Rightarrow> (string + 'a) \<times> string list" where
  "log_transaction body conn =
     (case body (conn @ [''begin'']) of
        (Inl e, tx) \<Rightarrow> (Inl e, tx @ [''rollback''])
      | (Inr a, tx) \<Rightarrow> (Inr a, tx @ [''commit'']))"

definition log_execute :: "string \<Rightarrow> string list \<Rightarrow> (string + unit) \<times> string list" where
  "log_execute q tx = (Inr (), tx @ [q])"

section \<open>Schema names\<close>

text \<open>\<open>escapeSchemaName\<close> of \<^verbatim>\<open>script-utils.ts\<close>.\<close>

definition double_dquotes :: "string \<Rightarrow> string" where
  "double_dquotes s = concat (map (\<lambda>c. if c = dquote then [dquote, dquote] else [c]) s)"

definition escapeSchemaName :: "string \<Rightarrow> string" where
  "escapeSchemaName schemaName =
     (if schemaName = ''public'' then ''public''
      else [dquote] @ double_dquotes schemaName @ [dquote])"

text \<open>
  \<open>validateSchemaName\<close> of \<^verbatim>\<open>tenant-schema.ts\<close>; the pattern is
  \<^verbatim>\<open>/^[a-zA-Z_][a-zA-Z0-9_]*$/\<close>. The value \<open>Inl msg\<close> is the thrown
  \<^verbatim>\<open>Error(msg)\<close>.
\<close>

definition NAME_REGEX :: regex where
  "NAME_REGEX =
     [(Class (lower_letters @ upper_letters @ ''_''), Exactly 1),
      (Class (lower_letters @ upper_letters @ digit_chars @ ''_''), Star)]"

definition reservedKeywords :: "string list" where
  "reservedKeywords =
     [''public'', ''pg_catalog'', ''pg_toast'', ''information_schema'', ''pg_temp'',
      ''pg_toast_temp'']"

definition validateSchemaName :: "string \<Rightarrow> string + unit" where
  "validateSchemaName schemaName =
     (if schemaName = [] then Inl ''Schema name must be a non-empty string''
      else if length schemaName > 63 then Inl ''Schema name must be 63 characters or less''
      else if \<not> matches False NAME_REGEX schemaName
        then Inl (''Schema name must start with a letter or underscore and contain only '' @
                  ''letters, digits, and underscores'')
      else if toLowerCase schemaName \<in> set reservedKeywords
        then Inl (''Schema name cannot be a reserved PostgreSQL keyword: '' @ schemaName)
      else Inr ())"

text \<open>
  The quoting rule of SQL. A quoted identifier opens with a double quote, a doubled double
  quote inside stands for one double quote, and the first double quote that is not doubled
  closes it; a string constant is read the same way with single quotes. The text is a single
  quoted item when nothing follows the closing quote. \<open>quoted_text_denotes q t\<close> is what
  the text \<open>t\<close> stands for under the quote character \<open>q\<close>, if \<open>t\<close> is such a text.
\<close>

fun unquote_body :: "char \<Rightarrow> string \<Rightarrow> string option" where
  "unquote_body q [] = None"
| "unquote_body q [c] = (if c = q then Some [] else None)"
| "unquote_body q (c # d # r) =
     (if c = q
      then (if d = q then map_option (Cons q) (unquote_body q r) else None)
      else map_option (Cons c) (unquote_body q (d # r)))"

definition quoted_text_denotes :: "char \<Rightarrow> string \<Rightarrow> string option" where
  "quoted_text_denotes q t =
     (case t of [] \<Rightarrow> None | c # r \<Rightarrow> if c = q then unquote_body q r else None)"



section \<open>The database engine, the migration files and the client\<close>

text \<open>
  The catalogue of the database: the schemas in the order the catalogue lists them, each
  with its tables, each table with its rows. The only rows the program reads are those of
  the tracking table \<^verbatim>\<open>__drizzle_migrations\<close>, a \<^verbatim>\<open>hash\<close> and a
  \<^verbatim>\<open>created_at\<close>; \<^verbatim>\<open>schema_tracker\<close> is the \<^verbatim>\<open>name\<close> column of
  \<^verbatim>\<open>public.schema_tracker\<close>. \<open>search_path\<close> is that of the connection in use.
\<close>

type_synonym row = "string \<times> nat"

type_synonym tables = "(string \<times> row list) list"

record pg =
  schemata :: "(string \<times> tables) list"
  schema_tracker :: "string list"
  search_path :: "string list"

text \<open>
  What running the text of a migration file does to the database is the engine's business:
  it is a parameter, a function from the text and the database to an error message or the
  database afterwards.
\<close>

type_synonym engine = "string \<Rightarrow> pg \<Rightarrow> string + pg"

text \<open>
  The statements the program sends, named after their text, with the values the program
  puts into them:
  \<^item> \<open>SetSearchPath i\<close>: \<^verbatim>\<open>SET search_path TO i, public\<close>
  \<^item> \<open>ShowSearchPath\<close>: \<^verbatim>\<open>SHOW search_path\<close>
  \<^item> \<open>CreateSchema i\<close>: \<^verbatim>\<open>CREATE SCHEMA IF NOT EXISTS i\<close>
  \<^item> \<open>DropSchema i\<close>: \<^verbatim>\<open>DROP SCHEMA IF EXISTS i CASCADE\<close>
  \<^item> \<open>CreateMigrationsTable i\<close>:
    \<^verbatim>\<open>CREATE TABLE IF NOT EXISTS i."__drizzle_migrations" (id SERIAL PRIMARY KEY, hash text NOT NULL, created_at bigint)\<close>
  \<^item> \<open>SelectHashes i\<close>: \<^verbatim>\<open>SELECT hash FROM i."__drizzle_migrations"\<close>
  \<^item> \<open>SelectHashesById i\<close>: the same with \<^verbatim>\<open>ORDER BY id\<close>
  \<^item> \<open>InsertMigration i t n\<close>:
    \<^verbatim>\<open>INSERT INTO i."__drizzle_migrations" (hash, created_at) VALUES ('t', n)\<close>
  \<^item> \<open>CountMigrations i\<close>:
    \<^verbatim>\<open>SELECT COUNT(*) as count FROM i."__drizzle_migrations"\<close>
  \<^item> \<open>Script sql\<close>: the text of a migration file
  \<^item> \<open>SchemaExists s\<close>:
    \<^verbatim>\<open>SELECT EXISTS(SELECT 1 FROM information_schema.schemata WHERE schema_name = $1)\<close>
  \<^item> \<open>TableExists s t\<close>:
    \<^verbatim>\<open>SELECT EXISTS(SELECT 1 FROM information_schema.tables WHERE table_schema = $1 AND table_name = $2)\<close>
  \<^item> \<open>SelectTableNames s\<close>:
    \<^verbatim>\<open>SELECT table_name FROM information_schema.tables WHERE table_schema = $1 ORDER BY table_name\<close>
  \<^item> \<open>SelectSchemaNames\<close>: \<^verbatim>\<open>SELECT schema_name FROM information_schema.schemata
    WHERE schema_name NOT IN ('pg_catalog', 'information_schema', 'pg_toast', 'pg_temp_1', 'pg_toast_temp_1', 'public')
    AND schema_name NOT LIKE 'pg_%' ORDER BY schema_name\<close>
  \<^item> \<open>SelectTracker\<close>: the query the ORM builds for \<^verbatim>\<open>db.select().from(schemaTracker)\<close>
  Where a statement carries an \<open>i\<close>, that is text spliced into the statement: the escaped
  schema name, except in \<open>CountMigrations\<close>, where the program splices the schema name
  between two double quotes as it is. The tag \<open>t\<close> of \<open>InsertMigration\<close> is spliced too,
  as it is, between two single quotes. \<open>s\<close> and \<open>t\<close> of the catalogue queries are passed
  as values.
\<close>

datatype statement =
    SetSearchPath string
  | ShowSearchPath
  | CreateSchema string
  | DropSchema string
  | CreateMigrationsTable string
  | SelectHashes string
  | SelectHashesById string
  | InsertMigration string string nat
  | CountMigrations string
  | Script string
  | SchemaExists string
  | TableExists string string
  | SelectTableNames string
  | SelectSchemaNames
  | SelectTracker

datatype reply = Done | Rows "string list" | Exists bool

fun rows_of :: "reply \<Rightarrow> string list" where
  "rows_of (Rows rs) = rs"
| "rows_of _ = []"

fun exists_of :: "reply \<Rightarrow> bool" where
  "exists_of (Exists b) = b"
| "exists_of _ = False"

text \<open>
  The identifier a spliced text names, by the quoting rule: \<^verbatim>\<open>public\<close> written bare,
  or a quoted identifier.
\<close>

definition read_ident :: "string \<Rightarrow> string option" where
  "read_ident t = (if t = ''public'' then Some ''public'' else quoted_text_denotes dquote t)"

text \<open>\<^verbatim>\<open>LIKE\<close>: \<^verbatim>\<open>%\<close> stands for any text, \<^verbatim>\<open>_\<close> for any one character.\<close>

fun sql_like :: "string \<Rightarrow> string \<Rightarrow> bool" where
  "sql_like [] s = (s = [])"
| "sql_like (p # ps) [] = (p = CHR ''%'' \<and> sql_like ps [])"
| "sql_like (p # ps) (c # s) =
     (if p = CHR ''%'' then sql_like ps (c # s) \<or> sql_like (p # ps) s
      else if p = CHR ''_'' then sql_like ps s
      else p = c \<and> sql_like ps s)"

definition migrations_table :: string where
  "migrations_table = ''__drizzle_migrations''"

definition has_schema :: "pg \<Rightarrow> string \<Rightarrow> bool" where
  "has_schema d s = (s \<in> fst ` set (schemata d))"

definition has_table :: "pg \<Rightarrow> string \<Rightarrow> string \<Rightarrow> bool" where
  "has_table d s t =
     (case map_of (schemata d) s of None \<Rightarrow> False | Some ts \<Rightarrow> t \<in> fst ` set ts)"

definition table_rows :: "pg \<Rightarrow> string \<Rightarrow> string \<Rightarrow> row list option" where
  "table_rows d s t = (case map_of (schemata d) s of None \<Rightarrow> None | Some ts \<Rightarrow> map_of ts t)"

definition applied_hashes :: "pg \<Rightarrow> string \<Rightarrow> string list" where
  "applied_hashes d s =
     (case table_rows d s migrations_table of None \<Rightarrow> [] | Some rs \<Rightarrow> map fst rs)"

definition modify_schema :: "string \<Rightarrow> (tables \<Rightarrow> tables) \<Rightarrow> pg \<Rightarrow> pg" where
  "modify_schema s f d =
     d\<lparr>schemata := map (\<lambda>(n, ts). if n = s then (n, f ts) else (n, ts)) (schemata d)\<rparr>"

definition append_row :: "string \<Rightarrow> row \<Rightarrow> tables \<Rightarrow> tables" where
  "append_row t r ts = map (\<lambda>(n, rs). if n = t then (n, rs @ [r]) else (n, rs)) ts"

definition excluded_schemas :: "string list" where
  "excluded_schemas =
     [''pg_catalog'', ''information_schema'', ''pg_toast'', ''pg_temp_1'', ''pg_toast_temp_1'',
      ''public'']"

definition table_names :: "pg \<Rightarrow> string \<Rightarrow> string list" where
  "table_names d s = sort (case map_of (schemata d) s of None \<Rightarrow> [] | Some ts \<Rightarrow> map fst ts)"

definition select_hashes :: "string \<Rightarrow> pg \<Rightarrow> string + reply \<times> pg" where
  "select_hashes i d =
     (case read_ident i of
        None \<Rightarrow> Inl ''syntax error''
      | Some s \<Rightarrow>
          (case table_rows d s migrations_table of
             None \<Rightarrow> Inl (''relation '' @ i @ ''.__drizzle_migrations does not exist'')
           | Some rs \<Rightarrow> Inr (Rows (map fst rs), d)))"

text \<open>
  The decimal numeral of a number, as a template literal writes it, and the full text of the
  two statements into which the program splices a text that it has not escaped.
\<close>

function decimal :: "nat \<Rightarrow> string" where
  "decimal n =
     (if n < 10 then [digit_chars ! n] else decimal (n div 10) @ [digit_chars ! (n mod 10)])"
  by pat_completeness auto

termination
  by (relation "measure id") auto

declare decimal.simps [simp del]

definition newline :: char where
  "newline = CHR 0x0A"

definition insert_text :: "string \<Rightarrow> string \<Rightarrow> nat \<Rightarrow> string" where
  "insert_text i t n =
     [newline] @ ''      INSERT INTO '' @ i @ ''.'' @ [dquote] @ ''__drizzle_migrations'' @
     [dquote] @ '' (hash, created_at)'' @ [newline] @ ''      VALUES ('' @ [squote] @ t @
     [squote] @ '', '' @ decimal n @ '')'' @ [newline] @ ''    ''"

definition count_text :: "string \<Rightarrow> string" where
  "count_text i =
     [newline] @ ''            SELECT COUNT(*) as count FROM '' @ i @ ''.'' @ [dquote] @
     ''__drizzle_migrations'' @ [dquote] @ [newline] @ ''          ''"

text \<open>
  What the engine does with a statement: an error message, or a reply and the database
  afterwards. A statement that names a missing schema or table fails; the
  \<^verbatim>\<open>IF NOT EXISTS\<close> and \<^verbatim>\<open>IF EXISTS\<close> forms do nothing where there is nothing
  to do, and \<^verbatim>\<open>CREATE SCHEMA\<close> refuses a name that begins with \<^verbatim>\<open>pg_\<close>, with
  or without \<^verbatim>\<open>IF NOT EXISTS\<close>. \<^verbatim>\<open>ORDER BY\<close> on names is the order of
  \<^typ>\<open>string\<close>; rows come in the order they were inserted, which is the order of their
  \<^verbatim>\<open>id\<close>. A schema is kept under the name that the quoting rule reads from the
  statement that creates it.

  A text spliced without escaping may break out of its quotes. The tag of
  \<open>InsertMigration\<close> stands for a string constant when every single quote in it is
  doubled, and the value inserted is then what that constant denotes (one single quote for
  each doubled one); with any other tag the text sent is no longer the \<^verbatim>\<open>INSERT\<close>
  above but some other text, and what it does is left to the engine parameter, like the
  text of a migration file. The same holds for the name of \<open>CountMigrations\<close>.
\<close>

fun exec :: "engine \<Rightarrow> statement \<Rightarrow> pg \<Rightarrow> string + reply \<times> pg" where
  "exec eng (SetSearchPath i) d =
     (case read_ident i of
        None \<Rightarrow> Inl ''syntax error''
      | Some s \<Rightarrow> Inr (Done, d\<lparr>search_path := [s, ''public'']\<rparr>))"
| "exec eng ShowSearchPath d = Inr (Rows [join '', '' (search_path d)], d)"
| "exec eng (CreateSchema i) d =
     (case read_ident i of
        None \<Rightarrow> Inl ''syntax error''
      | Some s \<Rightarrow>
          if prefix ''pg_'' s
          then Inl (''unacceptable schema name '' @ [dquote] @ s @ [dquote])
          else Inr (Done, if has_schema d s then d else d\<lparr>schemata := schemata d @ [(s, [])]\<rparr>))"
| "exec eng (DropSchema i) d =
     (case read_ident i of
        None \<Rightarrow> Inl ''syntax error''
      | Some s \<Rightarrow> Inr (Done, d\<lparr>schemata := filter (\<lambda>(n, ts). n \<noteq> s) (schemata d)\<rparr>))"
| "exec eng (CreateMigrationsTable i) d =
     (case read_ident i of
        None \<Rightarrow> Inl ''syntax error''
      | Some s \<Rightarrow>
          if \<not> has_schema d s then Inl (''schema '' @ i @ '' does not exist'')
          else if has_table d s migrations_table then Inr (Done, d)
          else Inr (Done, modify_schema s (\<lambda>ts. ts @ [(migrations_table, [])]) d))"
| "exec eng (SelectHashes i) d = select_hashes i d"
| "exec eng (SelectHashesById i) d = select_hashes i d"
| "exec eng (InsertMigration i t n) d =
     (case read_ident i of
        None \<Rightarrow> Inl ''syntax error''
      | Some s \<Rightarrow>
          (case quoted_text_denotes squote ([squote] @ t @ [squote]) of
             None \<Rightarrow>
               (case eng (insert_text i t n) d of Inl e \<Rightarrow> Inl e | Inr d' \<Rightarrow> Inr (Done, d'))
           | Some h \<Rightarrow>
               if \<not> has_table d s migrations_table
               then Inl (''relation '' @ i @ ''.__drizzle_migrations does not exist'')
               else Inr (Done, modify_schema s (append_row migrations_table (h, n)) d)))"
| "exec eng (CountMigrations i) d =
     (case read_ident i of
        None \<Rightarrow> (case eng (count_text i) d of Inl e \<Rightarrow> Inl e | Inr d' \<Rightarrow> Inr (Done, d'))
      | Some s \<Rightarrow>
          (case table_rows d s migrations_table of
             None \<Rightarrow> Inl (''relation '' @ i @ ''.__drizzle_migrations does not exist'')
           | Some rs \<Rightarrow> Inr (Rows [decimal (length rs)], d)))"
| "exec eng (Script sql) d = (case eng sql d of Inl e \<Rightarrow> Inl e | Inr d' \<Rightarrow> Inr (Done, d'))"
| "exec eng (SchemaExists s) d = Inr (Exists (has_schema d s), d)"
| "exec eng (TableExists s t) d = Inr (Exists (has_table d s t), d)"
| "exec eng (SelectTableNames s) d = Inr (Rows (table_names d s), d)"
| "exec eng SelectSchemaNames d =
     Inr (Rows (sort (filter (\<lambda>n. n \<notin> set excluded_schemas \<and> \<not> sql_like ''pg_%'' n)
                        (map fst (schemata d)))), d)"
| "exec eng SelectTracker d = Inr (Rows (schema_tracker d), d)"

text \<open>
  A folder of migrations on disk: \<^verbatim>\<open>meta/_journal.json\<close>, absent, or with content on
  which \<^verbatim>\<open>JSON.parse\<close> throws (with that message), or an object whose
  \<^verbatim>\<open>entries\<close> is missing or lists the tags in order; and the files
  \<^verbatim>\<open>tag.sql\<close> by tag.
\<close>

datatype journal_json = Malformed string | Journal "string list option"

record folder =
  journal :: "journal_json option"
  sql_files :: "string \<Rightarrow> string option"

datatype console_error = FailedToCleanup string string | FailedToMigrate string string

text \<open>
  The world the scripts run in: the database, the disk (by folder path), the working
  directory, the clock read by \<^verbatim>\<open>Date.now()\<close> (as a function of how many statements
  have been sent), the statements sent so far, the failures the connection is going to have
  (the statement sent as number \<open>k\<close> fails with \<open>msg\<close> when \<open>faults w k = Some msg\<close>,
  whatever the statement), and what \<^verbatim>\<open>console.error\<close> has printed.
  \<^verbatim>\<open>console.log\<close> does not decide anything and is left out, and with it the
  \<^verbatim>\<open>logPrefix\<close> option that only guards it.
\<close>

record world =
  database :: pg
  files :: "string \<Rightarrow> folder"
  cwd :: string
  clock :: "nat \<Rightarrow> nat"
  sent :: "statement list"
  faults :: "nat \<Rightarrow> string option"
  stderr :: "console_error list"

definition now :: "world \<Rightarrow> nat" where
  "now w = clock w (length (sent w))"

text \<open>\<^verbatim>\<open>client.unsafe(...)\<close>, \<^verbatim>\<open>client`...`\<close> and the ORM's query: one statement sent.\<close>

definition send :: "engine \<Rightarrow> statement \<Rightarrow> world \<Rightarrow> (string + reply) \<times> world" where
  "send eng st w =
     (let w1 = w\<lparr>sent := sent w @ [st]\<rparr> in
      case faults w (length (sent w)) of
        Some msg \<Rightarrow> (Inl msg, w1)
      | None \<Rightarrow>
          (case exec eng st (database w) of
             Inl msg \<Rightarrow> (Inl msg, w1)
           | Inr (r, d) \<Rightarrow> (Inr r, w1\<lparr>database := d\<rparr>)))"

text \<open>
  \<open>createPostgresClient\<close>: a connection of its own, whose search path starts as the default
  one. Closing it (\<^verbatim>\<open>client.end()\<close>) sends no statement and is not modelled.
\<close>

definition createPostgresClient :: "world \<Rightarrow> world" where
  "createPostgresClient w = w\<lparr>database := (database w)\<lparr>search_path := [''public'']\<rparr>\<rparr>"

section \<open>Applying migrations\<close>

text \<open>
  The loop of \<open>applyMigrations\<close> over the journal's entries; \<open>appliedHashes\<close> is the set
  read before the loop, \<open>appliedCount\<close> the counter.
\<close>

fun apply_entries ::
  "engine \<Rightarrow> string \<Rightarrow> string \<Rightarrow> string list \<Rightarrow> string list \<Rightarrow> nat \<Rightarrow> world \<Rightarrow>
   (string + nat) \<times> world" where
  "apply_entries eng escapedSchemaName migrationsFolder appliedHashes [] appliedCount w =
     (Inr appliedCount, w)"
| "apply_entries eng escapedSchemaName migrationsFolder appliedHashes (tag # rest) appliedCount w =
     (case sql_files (files w migrationsFolder) tag of
        None \<Rightarrow>
          (Inl (''Migration file not found: '' @ migrationsFolder @ ''/'' @ tag @ ''.sql''), w)
      | Some sql \<Rightarrow>
          if tag \<in> set appliedHashes
          then apply_entries eng escapedSchemaName migrationsFolder appliedHashes rest
                 appliedCount w
          else
            (case send eng (Script sql) w of
               (Inl e, w1) \<Rightarrow> (Inl e, w1)
             | (Inr _, w1) \<Rightarrow>
                 (case send eng (InsertMigration escapedSchemaName tag (now w1)) w1 of
                    (Inl e, w2) \<Rightarrow> (Inl e, w2)
                  | (Inr _, w2) \<Rightarrow>
                      apply_entries eng escapedSchemaName migrationsFolder appliedHashes rest
                        (appliedCount + 1) w2)))"

text \<open>
  \<open>applyMigrations\<close> of \<^verbatim>\<open>migration-utils.ts\<close>. The source's promise resolves to
  no value; the model returns the final value of the counter \<open>appliedCount\<close>, which the
  source keeps and prints, so that the count can be spoken about. No caller reads it.
\<close>

definition applyMigrations ::
  "engine \<Rightarrow> string \<Rightarrow> string \<Rightarrow> world \<Rightarrow> (string + nat) \<times> world" where
  "applyMigrations eng schemaName migrationsFolder w =
     (let escapedSchemaName = escapeSchemaName schemaName in
      case send eng (SetSearchPath escapedSchemaName) w of
        (Inl e, w1) \<Rightarrow> (Inl e, w1)
      | (Inr _, w1) \<Rightarrow>
      (case send eng ShowSearchPath w1 of
        (Inl e, w2) \<Rightarrow> (Inl e, w2)
      | (Inr _, w2) \<Rightarrow>
      (case journal (files w2 migrationsFolder) of
        None \<Rightarrow>
          (Inl (''Migration journal not found at '' @ migrationsFolder @ ''/meta/_journal.json''),
           w2)
      | Some (Malformed msg) \<Rightarrow> (Inl msg, w2)
      | Some (Journal entries) \<Rightarrow>
          (let migrations = (case entries of None \<Rightarrow> [] | Some ms \<Rightarrow> ms) in
           if length migrations = 0 then (Inr 0, w2)
           else
             (case send eng (CreateMigrationsTable escapedSchemaName) w2 of
                (Inl e, w3) \<Rightarrow> (Inl e, w3)
              | (Inr _, w3) \<Rightarrow>
             (case send eng (SelectHashes escapedSchemaName) w3 of
                (Inl e, w4) \<Rightarrow> (Inl e, w4)
              | (Inr appliedMigrations, w4) \<Rightarrow>
                  apply_entries eng escapedSchemaName migrationsFolder
                    (rows_of appliedMigrations) migrations 0 w4))))))"

section \<open>Provisioning and migrating tenant schemas\<close>

definition tenant_migrations_folder :: "world \<Rightarrow> string" where
  "tenant_migrations_folder w = cwd w @ ''/db/migrations/tenant''"

text \<open>The \<^verbatim>\<open>try\<close> block of \<open>createTenantSchemaWithMigrations\<close>.\<close>

definition provision :: "engine \<Rightarrow> string \<Rightarrow> world \<Rightarrow> (string + unit) \<times> world" where
  "provision eng schemaName w =
     (case send eng (CreateSchema (escapeSchemaName schemaName)) w of
        (Inl e, w1) \<Rightarrow> (Inl e, w1)
      | (Inr _, w1) \<Rightarrow>
      (case applyMigrations eng schemaName (tenant_migrations_folder w1) w1 of
        (Inl e, w2) \<Rightarrow> (Inl e, w2)
      | (Inr _, w2) \<Rightarrow>
      (case send eng (SelectTableNames schemaName) w2 of
        (Inl e, w3) \<Rightarrow> (Inl e, w3)
      | (Inr tablesInSchema, w3) \<Rightarrow>
      (case send eng (TableExists schemaName ''dummy_table'') w3 of
        (Inl e, w4) \<Rightarrow> (Inl e, w4)
      | (Inr tableCheck, w4) \<Rightarrow>
          if exists_of tableCheck then (Inr (), w4)
          else
            (case send eng (TableExists ''public'' ''dummy_table'') w4 of
               (Inl e, w5) \<Rightarrow> (Inl e, w5)
             | (Inr publicTableCheck, w5) \<Rightarrow>
                 (let errorMsg =
                        ''dummy_table was not created in tenant schema '' @ schemaName @ ''. '' @
                        ''Migration execution may have failed. '' @
                        ''Tables found in schema: '' @ join '', '' (rows_of tablesInSchema)
                  in if exists_of publicTableCheck
                     then (Inl (errorMsg @ '' Note: dummy_table exists in public schema instead.''),
                           w5)
                     else (Inl errorMsg, w5)))))))"

text \<open>\<open>createTenantSchemaWithMigrations\<close> of \<^verbatim>\<open>tenant-schema.ts\<close>.\<close>

definition createTenantSchemaWithMigrations ::
  "engine \<Rightarrow> string \<Rightarrow> world \<Rightarrow> (string + unit) \<times> world" where
  "createTenantSchemaWithMigrations eng schemaName w =
     (case validateSchemaName schemaName of
        Inl e \<Rightarrow> (Inl e, w)
      | Inr _ \<Rightarrow>
          (case provision eng schemaName (createPostgresClient w) of
             (Inr u, w1) \<Rightarrow> (Inr u, w1)
           | (Inl error, w1) \<Rightarrow>
               (case send eng (DropSchema (escapeSchemaName schemaName)) w1 of
                  (Inl cleanupError, w2) \<Rightarrow>
                    (Inl error,
                     w2\<lparr>stderr := stderr w2 @ [FailedToCleanup schemaName cleanupError]\<rparr>)
                | (Inr _, w2) \<Rightarrow> (Inl error, w2))))"




section \<open>The health check\<close>

text \<open>\<open>getExpectedMigrations\<close> of \<^verbatim>\<open>script-utils.ts\<close>.\<close>

definition getExpectedMigrations :: "string \<Rightarrow> world \<Rightarrow> string + string list" where
  "getExpectedMigrations migrationsFolder w =
     (case journal (files w migrationsFolder) of
        None \<Rightarrow> Inl (''Migration journal not found at '' @ migrationsFolder @ ''/meta/_journal.json'')
      | Some (Malformed msg) \<Rightarrow> Inl msg
      | Some (Journal entries) \<Rightarrow> Inr (case entries of None \<Rightarrow> [] | Some ms \<Rightarrow> ms))"

record health_results =
  totalSchemas :: nat
  healthySchemas :: "string list"
  unhealthySchemas :: "(string \<times> string) list"
  orphanedSchemas :: "string list"

definition push_unhealthy :: "string \<Rightarrow> string \<Rightarrow> health_results \<Rightarrow> health_results" where
  "push_unhealthy name issue results =
     results\<lparr>unhealthySchemas := unhealthySchemas results @ [(name, issue)]\<rparr>"

definition missingMigrations :: "string list \<Rightarrow> string list \<Rightarrow> string list" where
  "missingMigrations expectedMigrations appliedMigrations =
     filter (\<lambda>m. m \<notin> set appliedMigrations) expectedMigrations"

definition extraMigrations :: "string list \<Rightarrow> string list \<Rightarrow> string list" where
  "extraMigrations expectedMigrations appliedMigrations =
     filter (\<lambda>m. m \<notin> set expectedMigrations) appliedMigrations"

definition mismatch_issue :: "string list \<Rightarrow> string list \<Rightarrow> string" where
  "mismatch_issue missing extra =
     ''Migration mismatch: '' @
     join ''; ''
       ((if length missing > 0 then [''Missing migrations: '' @ join '', '' missing] else []) @
        (if length extra > 0 then [''Extra migrations: '' @ join '', '' extra] else []))"

text \<open>
  One turn of the loop of \<open>healthCheck\<close> over the tracked schemas, from the health check
  script that reads the journal and compares it with the tracking table (the repository
  holds a second script of that name, \<^verbatim>\<open>db/scripts/health-check.ts\<close>, modelled
  further down).
  \<open>check_migration_status\<close> is the inner \<^verbatim>\<open>try\<close> block, whose
  \<^verbatim>\<open>catch\<close> reports a failed migration check; \<open>check_schema\<close> is the body of the
  \<^verbatim>\<open>for\<close>, whose \<^verbatim>\<open>catch\<close> reports the error as it is.
\<close>

definition check_migration_status ::
  "engine \<Rightarrow> string list \<Rightarrow> string \<Rightarrow> health_results \<Rightarrow> world \<Rightarrow> health_results \<times> world" where
  "check_migration_status eng expectedMigrations name results w =
     (case send eng (TableExists name ''__drizzle_migrations'') w of
        (Inl e, w1) \<Rightarrow> (push_unhealthy name (''Migration check failed: '' @ e) results, w1)
      | (Inr migrationsTableExists, w1) \<Rightarrow>
          if \<not> exists_of migrationsTableExists
          then (push_unhealthy name ''__drizzle_migrations table does not exist'' results, w1)
          else
      (case send eng (SelectHashesById (escapeSchemaName name)) w1 of
        (Inl e, w2) \<Rightarrow> (push_unhealthy name (''Migration check failed: '' @ e) results, w2)
      | (Inr applied, w2) \<Rightarrow>
          (let appliedMigrations = rows_of applied;
               missing = missingMigrations expectedMigrations appliedMigrations;
               extra = extraMigrations expectedMigrations appliedMigrations
           in if length missing > 0 \<or> length extra > 0
              then (push_unhealthy name (mismatch_issue missing extra) results, w2)
              else (results\<lparr>healthySchemas := healthySchemas results @ [name]\<rparr>, w2))))"

definition check_schema ::
  "engine \<Rightarrow> string list \<Rightarrow> string \<Rightarrow> health_results \<Rightarrow> world \<Rightarrow> health_results \<times> world" where
  "check_schema eng expectedMigrations name results w =
     (case send eng (SchemaExists name) w of
        (Inl e, w1) \<Rightarrow> (push_unhealthy name e results, w1)
      | (Inr schemaExists, w1) \<Rightarrow>
          if \<not> exists_of schemaExists
          then (push_unhealthy name ''Schema does not exist in database'' results, w1)
          else
      (case send eng (SetSearchPath (escapeSchemaName name)) w1 of
        (Inl e, w2) \<Rightarrow> (push_unhealthy name e results, w2)
      | (Inr _, w2) \<Rightarrow>
      (case send eng (TableExists name ''dummy_table'') w2 of
        (Inl e, w3) \<Rightarrow> (push_unhealthy name e results, w3)
      | (Inr tableExists, w3) \<Rightarrow>
          if \<not> exists_of tableExists
          then (push_unhealthy name ''dummy_table does not exist'' results, w3)
          else check_migration_status eng expectedMigrations name results w3)))"

fun check_each ::
  "engine \<Rightarrow> string list \<Rightarrow> string list \<Rightarrow> health_results \<Rightarrow> world \<Rightarrow>
   health_results \<times> world" where
  "check_each eng expectedMigrations [] results w = (results, w)"
| "check_each eng expectedMigrations (name # rest) results w =
     (case check_schema eng expectedMigrations name results w of
        (results', w') \<Rightarrow> check_each eng expectedMigrations rest results' w')"

text \<open>
  \<open>healthCheck\<close>, up to the summary: the value is the \<^verbatim>\<open>results\<close> object the script
  prints and decides its exit code from; \<open>Inl\<close> is an error that reaches
  \<^verbatim>\<open>handleScriptError\<close>.
\<close>

definition healthCheck :: "engine \<Rightarrow> world \<Rightarrow> (string + health_results) \<times> world" where
  "healthCheck eng w =
     (case send eng SelectTracker (createPostgresClient w) of
        (Inl e, w1) \<Rightarrow> (Inl e, w1)
      | (Inr tracked, w1) \<Rightarrow>
          (let trackedSchemas = rows_of tracked;
               results = \<lparr>totalSchemas = length trackedSchemas, healthySchemas = [],
                          unhealthySchemas = [], orphanedSchemas = []\<rparr>;
               expectedMigrations =
                 (case getExpectedMigrations (tenant_migrations_folder w1) w1 of
                    Inl _ \<Rightarrow> [] | Inr ms \<Rightarrow> ms)
           in case check_each eng expectedMigrations trackedSchemas results w1 of
                (results', w2) \<Rightarrow>
                  (case send eng SelectSchemaNames w2 of
                     (Inl e, w3) \<Rightarrow> (Inl e, w3)
                   | (Inr allSchemas, w3) \<Rightarrow>
                       (Inr (results'\<lparr>orphanedSchemas :=
                                filter (\<lambda>n. n \<notin> set trackedSchemas) (rows_of allSchemas)\<rparr>),
                        w3))))"





text \<open>
  The classification in the specification's words: the checks (a) schema, (b) expected table,
  (c) tracking table, (d) applied tags against expected tags, in this order, the first that
  fails giving the defect; \<open>None\<close> is a healthy schema.
\<close>

definition audit_defect :: "pg \<Rightarrow> string list \<Rightarrow> string \<Rightarrow> string option" where
  "audit_defect d expectedTags name =
     (if \<not> has_schema d name then Some ''Schema does not exist in database''
      else if \<not> has_table d name ''dummy_table'' then Some ''dummy_table does not exist''
      else if \<not> has_table d name ''__drizzle_migrations''
        then Some ''__drizzle_migrations table does not exist''
      else if set expectedTags \<noteq> set (applied_hashes d name)
        then Some (mismatch_issue (missingMigrations expectedTags (applied_hashes d name))
                     (extraMigrations expectedTags (applied_hashes d name)))
      else None)"





section \<open>Notions used in the statements\<close>

text \<open>
  A regular expression without a star as the list of its atoms, one per character, and the
  atom that stands at each position of the UUID grammar.
\<close>

fun expand :: "regex \<Rightarrow> atom list" where
  "expand [] = []"
| "expand ((a, Exactly n) # r) = replicate n a @ expand r"
| "expand ((a, Star) # r) = expand r"

fun star_free :: "regex \<Rightarrow> bool" where
  "star_free [] = True"
| "star_free ((a, Exactly n) # r) = star_free r"
| "star_free ((a, Star) # r) = False"

fun atom_for :: "uuid_position \<Rightarrow> atom" where
  "atom_for HexDigit = hex_class"
| "atom_for Hyphen = Lit CHR ''-''"
| "atom_for VersionNibble = Lit CHR ''4''"
| "atom_for VariantNibble = Class ''89ab''"

text \<open>
  The statements that belong to the entries \<open>tags\<close> of a journal: running the file of one
  of them, or recording one of them.
\<close>

definition entry_statements :: "string \<Rightarrow> folder \<Rightarrow> string list \<Rightarrow> statement set" where
  "entry_statements i f tags =
     {st. \<exists>t\<in>set tags. (\<exists>sql. sql_files f t = Some sql \<and> st = Script sql) \<or>
                         (\<exists>n. st = InsertMigration i t n)}"


text \<open>The message of the error thrown when \<^verbatim>\<open>dummy_table\<close> is not found.\<close>

definition verification_error :: "pg \<Rightarrow> string \<Rightarrow> string" where
  "verification_error d schemaName =
     ''dummy_table was not created in tenant schema '' @ schemaName @ ''. '' @
     ''Migration execution may have failed. '' @
     ''Tables found in schema: '' @ join '', '' (table_names d schemaName)"




text \<open>One classification of the schema \<open>name\<close> added to the results.\<close>

definition classified :: "string \<Rightarrow> health_results \<Rightarrow> health_results \<Rightarrow> bool" where
  "classified name results results' =
     ((healthySchemas results' = healthySchemas results @ [name] \<and>
       unhealthySchemas results' = unhealthySchemas results) \<or>
      (\<exists>issue. unhealthySchemas results' = unhealthySchemas results @ [(name, issue)] \<and>
               healthySchemas results' = healthySchemas results))"

text \<open>
  The statements that leave the schemas and the tracker as they are, and the worlds that
  come after a given one and agree with it on the catalogue, the disk and the failures to
  come.
\<close>

fun reads_only :: "statement \<Rightarrow> bool" where
  "reads_only (SchemaExists s) = True"
| "reads_only (TableExists s t) = True"
| "reads_only (SetSearchPath i) = True"
| "reads_only (SelectHashesById i) = True"
| "reads_only (CountMigrations i) = (read_ident i \<noteq> None)"
| "reads_only SelectTracker = True"
| "reads_only SelectSchemaNames = True"
| "reads_only _ = False"

definition same_catalogue :: "world \<Rightarrow> world \<Rightarrow> bool" where
  "same_catalogue w w' =
     (schemata (database w') = schemata (database w) \<and>
      schema_tracker (database w') = schema_tracker (database w) \<and>
      files w' = files w \<and> cwd w' = cwd w \<and> faults w' = faults w \<and>
      length (sent w) \<le> length (sent w'))"

section \<open>A sample engine and sample worlds\<close>

text \<open>
  An engine to run the scripts on: it reads the text of a migration file as the name of a
  table to create in the first schema of the search path, and refuses when that schema is
  missing or has the table already, or when the table is the tracking table.
\<close>

definition table_engine :: engine where
  "table_engine sql d =
     (case search_path d of
        [] \<Rightarrow> Inl ''no schema has been selected to create in''
      | s # _ \<Rightarrow>
          if sql = migrations_table then Inl ''permission denied''
          else if \<not> has_schema d s then Inl (''schema '' @ s @ '' does not exist'')
          else if has_table d s sql then Inl (''relation '' @ sql @ '' already exists'')
          else Inr (modify_schema s (\<lambda>ts. ts @ [(sql, [])]) d))"

text \<open>
  A world with the given schemas, tracked names, journal tags and migration files, in which
  the tenant migrations folder is \<^verbatim>\<open>/app/db/migrations/tenant\<close>, no statement has been
  sent and none is going to fail.
\<close>

definition tenant_files :: "string list \<Rightarrow> (string \<times> string) list \<Rightarrow> string \<Rightarrow> folder" where
  "tenant_files tags bodies path =
     (if path = ''/app/db/migrations/tenant''
      then \<lparr>journal = Some (Journal (Some tags)), sql_files = map_of bodies\<rparr>
      else \<lparr>journal = None, sql_files = (\<lambda>_. None)\<rparr>)"

definition sample_world ::
  "(string \<times> tables) list \<Rightarrow> string list \<Rightarrow> string list \<Rightarrow> (string \<times> string) list \<Rightarrow> world" where
  "sample_world scs tracked tags bodies =
     \<lparr>database = \<lparr>schemata = scs, schema_tracker = tracked, search_path = [''public'']\<rparr>,
      files = tenant_files tags bodies, cwd = ''/app'', clock = (\<lambda>k. 1000 + k), sent = [],
      faults = (\<lambda>_. None), stderr = []\<rparr>"

definition demo_folder :: string where
  "demo_folder = ''/app/db/migrations/tenant''"



definition w_empty :: world where
  "w_empty = sample_world [(''tenant_a'', [])] [] [] []"





text \<open>
  A public schema that holds a \<^verbatim>\<open>dummy_table\<close> while the migration creates another
  table; a connection that fails on its first two statements; three tracked schemas with a
  connection that fails on the statement sent as number 15; a tenant schema that is one
  migration behind; and a database with two untracked schemas.
\<close>

definition w_misrouted :: world where
  "w_misrouted = sample_world [(''public'', [(''dummy_table'', [])])] [] [''0000_init'']
     [(''0000_init'', ''other_table'')]"

definition w_down :: world where
  "w_down = (sample_world [] [] [''0000_init''] [(''0000_init'', ''dummy_table'')])
     \<lparr>faults := (\<lambda>k. if k = 0 then Some ''connection lost''
                        else if k = 1 then Some ''connection still lost'' else None)\<rparr>"



definition w_pgx :: world where
  "w_pgx = sample_world [(''legacy'', []), (''pgx'', [])] [] [] []"

section \<open>Facts about the regular expressions\<close>

lemma matches_star_free:
  "star_free r \<Longrightarrow> matches ic r s = list_all2 (atom_matches ic) (expand r) s"
proof (induction ic r s rule: matches.induct)
  case (4 ic a n r c s)
  then show ?case by simp
qed simp_all

lemma expand_UUID_REGEX: "expand UUID_REGEX = map atom_for uuid_layout"
  by (simp add: UUID_REGEX_def uuid_layout_def numeral_eq_Suc)

lemma canonicalize_hex:
  "canonicalize c = CHR ''0'' \<longleftrightarrow> c = CHR ''0''"
  "canonicalize c = CHR ''1'' \<longleftrightarrow> c = CHR ''1''"
  "canonicalize c = CHR ''2'' \<longleftrightarrow> c = CHR ''2''"
  "canonicalize c = CHR ''3'' \<longleftrightarrow> c = CHR ''3''"
  "canonicalize c = CHR ''4'' \<longleftrightarrow> c = CHR ''4''"
  "canonicalize c = CHR ''5'' \<longleftrightarrow> c = CHR ''5''"
  "canonicalize c = CHR ''6'' \<longleftrightarrow> c = CHR ''6''"
  "canonicalize c = CHR ''7'' \<longleftrightarrow> c = CHR ''7''"
  "canonicalize c = CHR ''8'' \<longleftrightarrow> c = CHR ''8''"
  "canonicalize c = CHR ''9'' \<longleftrightarrow> c = CHR ''9''"
  "canonicalize c = CHR ''-'' \<longleftrightarrow> c = CHR ''-''"
  "canonicalize c = CHR ''A'' \<longleftrightarrow> c = CHR ''a'' \<or> c = CHR ''A''"
  "canonicalize c = CHR ''B'' \<longleftrightarrow> c = CHR ''b'' \<or> c = CHR ''B''"
  "canonicalize c = CHR ''C'' \<longleftrightarrow> c = CHR ''c'' \<or> c = CHR ''C''"
  "canonicalize c = CHR ''D'' \<longleftrightarrow> c = CHR ''d'' \<or> c = CHR ''D''"
  "canonicalize c = CHR ''E'' \<longleftrightarrow> c = CHR ''e'' \<or> c = CHR ''E''"
  "canonicalize c = CHR ''F'' \<longleftrightarrow> c = CHR ''f'' \<or> c = CHR ''F''"
  by (auto simp: canonicalize_def lower_letters_def upper_letters_def split: if_splits)

lemma canonicalize_consts:
  "canonicalize CHR ''0'' = CHR ''0''"
  "canonicalize CHR ''1'' = CHR ''1''"
  "canonicalize CHR ''2'' = CHR ''2''"
  "canonicalize CHR ''3'' = CHR ''3''"
  "canonicalize CHR ''4'' = CHR ''4''"
  "canonicalize CHR ''5'' = CHR ''5''"
  "canonicalize CHR ''6'' = CHR ''6''"
  "canonicalize CHR ''7'' = CHR ''7''"
  "canonicalize CHR ''8'' = CHR ''8''"
  "canonicalize CHR ''9'' = CHR ''9''"
  "canonicalize CHR ''-'' = CHR ''-''"
  "canonicalize CHR ''a'' = CHR ''A''"
  "canonicalize CHR ''b'' = CHR ''B''"
  "canonicalize CHR ''c'' = CHR ''C''"
  "canonicalize CHR ''d'' = CHR ''D''"
  "canonicalize CHR ''e'' = CHR ''E''"
  "canonicalize CHR ''f'' = CHR ''F''"
  by (simp_all add: canonicalize_def lower_letters_def upper_letters_def)

lemma hex_value_table:
  "hex_value =
     map_of [(CHR ''0'', 0), (CHR ''1'', 1), (CHR ''2'', 2), (CHR ''3'', 3), (CHR ''4'', 4),
       (CHR ''5'', 5), (CHR ''6'', 6), (CHR ''7'', 7), (CHR ''8'', 8), (CHR ''9'', 9),
       (CHR ''a'', 10), (CHR ''b'', 11), (CHR ''c'', 12), (CHR ''d'', 13), (CHR ''e'', 14),
       (CHR ''f'', 15), (CHR ''A'', 10), (CHR ''B'', 11), (CHR ''C'', 12), (CHR ''D'', 13),
       (CHR ''E'', 14), (CHR ''F'', 15)]"
  by (simp add: hex_value_def upt_rec numeral_eq_Suc)

lemma hex_value_digit: "hex_value c \<noteq> None \<longleftrightarrow> c \<in> set ''0123456789abcdefABCDEF''"
  by (simp add: hex_value_table)

lemma hex_value_version: "hex_value c = Some 4 \<longleftrightarrow> c = CHR ''4''"
  by (simp add: hex_value_table)

lemma hex_value_variant:
  "hex_value c = Some 8 \<longleftrightarrow> c = CHR ''8''"
  "hex_value c = Some 9 \<longleftrightarrow> c = CHR ''9''"
  "hex_value c = Some 10 \<longleftrightarrow> c = CHR ''a'' \<or> c = CHR ''A''"
  "hex_value c = Some 11 \<longleftrightarrow> c = CHR ''b'' \<or> c = CHR ''B''"
  by (simp_all add: hex_value_table)

lemma hex_value_some: "(\<exists>y. hex_value c = Some y) \<longleftrightarrow> c \<in> set ''0123456789abcdefABCDEF''"
  using hex_value_digit [of c] by simp

lemmas hex_value_simps = hex_value_some hex_value_version hex_value_variant

lemma atom_for_fits: "atom_matches True (atom_for p) c = fits p c"
proof (cases p)
  case HexDigit
  then show ?thesis
    by (auto simp: atom_matches_def hex_class_def canonicalize_consts canonicalize_hex
        hex_value_simps)
next
  case Hyphen
  then show ?thesis
    by (simp add: atom_matches_def canonicalize_consts canonicalize_hex)
next
  case VersionNibble
  then show ?thesis
    by (simp add: atom_matches_def canonicalize_consts canonicalize_hex hex_value_simps)
next
  case VariantNibble
  then show ?thesis
    by (auto simp: atom_matches_def canonicalize_consts canonicalize_hex hex_value_simps)
qed

lemma UUID_REGEX_test: "matches True UUID_REGEX s = canonical_uuid s"
proof -
  have "star_free UUID_REGEX"
    by (simp add: UUID_REGEX_def)
  then have "matches True UUID_REGEX s = list_all2 (atom_matches True) (map atom_for uuid_layout) s"
    by (simp add: matches_star_free expand_UUID_REGEX)
  also have "\<dots> = list_all2 (\<lambda>p c. atom_matches True (atom_for p) c) uuid_layout s"
    by (simp add: list_all2_map1)
  also have "\<dots> = canonical_uuid s"
    by (simp add: atom_for_fits canonical_uuid_def)
  finally show ?thesis .
qed

section \<open>Quoting and schema names\<close>

lemma unquote_body_step:
  "c \<noteq> q \<Longrightarrow> xs \<noteq> [] \<Longrightarrow> unquote_body q (c # xs) = map_option (Cons c) (unquote_body q xs)"
  by (cases xs) simp_all

lemma unquote_body_doubled:
  "unquote_body q (concat (map (\<lambda>c. if c = q then [q, q] else [c]) s) @ [q]) = Some s"
  by (induction s) (simp_all add: unquote_body_step)


lemma quoted_escape: "quoted_text_denotes dquote ([dquote] @ double_dquotes s @ [dquote]) = Some s"
  by (simp add: quoted_text_denotes_def double_dquotes_def unquote_body_doubled)

lemma read_ident_escape [simp]: "read_ident (escapeSchemaName s) = Some s"
  using quoted_escape [of s]
  by (simp add: read_ident_def escapeSchemaName_def dquote_def)














text \<open>
  Claim C1. For every string \<open>tenantId\<close> that does not match the canonical UUID grammar,
  \<open>withTenant\<close> throws the invalid-tenant-id error and leaves the connection as it found
  it, whatever the driver is: neither \<^verbatim>\<open>appDb.transaction\<close> nor
  \<^verbatim>\<open>tx.execute\<close> is called. For every \<open>tenantId\<close> that matches the grammar, no error
  constructed by \<open>withTenant\<close> is thrown, and the call is the driver's transaction around
  the \<^verbatim>\<open>SET LOCAL\<close> statement and the operation.
\<close>

theorem withTenant_validates:
  "(\<not> canonical_uuid tenantId \<longrightarrow>
      withTenant transaction execute tenantId operation conn =
        (Inl (Error (''Invalid tenantId: must be a valid UUID, got: '' @ tenantId)), conn)) \<and>
   (canonical_uuid tenantId \<longrightarrow>
      (\<forall>msg. fst (withTenant transaction execute tenantId operation conn) \<noteq> Inl (Error msg)) \<and>
      snd (withTenant transaction execute tenantId operation conn) =
        snd (transaction
               (\<lambda>tx. case execute (''SET LOCAL app.tenant_id = '' @ [squote] @ tenantId @ [squote]) tx of
                        (Inl e, tx') \<Rightarrow> (Inl e, tx')
                      | (Inr u, tx') \<Rightarrow> operation tx') conn))"
  by (auto simp: withTenant_def UUID_REGEX_test split: prod.splits sum.splits)

lemma uuid_layout_positions:
  "uuid_layout =
     [HexDigit, HexDigit, HexDigit, HexDigit, HexDigit, HexDigit, HexDigit, HexDigit, Hyphen,
      HexDigit, HexDigit, HexDigit, HexDigit, Hyphen, VersionNibble, HexDigit, HexDigit,
      HexDigit, Hyphen, VariantNibble, HexDigit, HexDigit, HexDigit, Hyphen, HexDigit,
      HexDigit, HexDigit, HexDigit, HexDigit, HexDigit, HexDigit, HexDigit, HexDigit, HexDigit,
      HexDigit, HexDigit]"
  by (simp add: uuid_layout_def numeral_eq_Suc)

lemma canonical_uuid_sample: "canonical_uuid ''11111111-1111-4111-8111-111111111111''"
  by (simp add: canonical_uuid_def uuid_layout_positions hex_value_simps)

lemma not_canonical_uuid_sample: "\<not> canonical_uuid ''tenant-1''"
  by (simp add: canonical_uuid_def uuid_layout_positions hex_value_simps)

text \<open>
  The statement at work on the sample driver: a malformed identifier sends nothing, a
  well-formed one opens the transaction, sets the tenant and commits.
\<close>

theorem withTenant_validates_witness:
  "\<not> canonical_uuid ''tenant-1'' \<and>
   withTenant log_transaction log_execute ''tenant-1'' (\<lambda>tx. (Inr (), tx @ [''select''])) [] =
     (Inl (Error ''Invalid tenantId: must be a valid UUID, got: tenant-1''), []) \<and>
   canonical_uuid ''11111111-1111-4111-8111-111111111111'' \<and>
   withTenant log_transaction log_execute ''11111111-1111-4111-8111-111111111111''
       (\<lambda>tx. (Inr (), tx @ [''select''])) [] =
     (Inr (), [''begin'',
        ''SET LOCAL app.tenant_id = '' @ [squote] @ ''11111111-1111-4111-8111-111111111111'' @ [squote],
        ''select'', ''commit''])"
proof -
  note t = withTenant_validates [of _ log_transaction log_execute "\<lambda>tx. (Inr (), tx @ [''select''])" "[]"]
  from t [of "''tenant-1''"] not_canonical_uuid_sample
  have 1: "withTenant log_transaction log_execute ''tenant-1'' (\<lambda>tx. (Inr (), tx @ [''select''])) [] =
     (Inl (Error ''Invalid tenantId: must be a valid UUID, got: tenant-1''), [])"
    by simp
  have 2: "withTenant log_transaction log_execute ''11111111-1111-4111-8111-111111111111''
       (\<lambda>tx. (Inr (), tx @ [''select''])) [] =
     (Inr (), [''begin'',
        ''SET LOCAL app.tenant_id = '' @ [squote] @ ''11111111-1111-4111-8111-111111111111'' @ [squote],
        ''select'', ''commit''])"
    using canonical_uuid_sample
    by (simp add: withTenant_def UUID_REGEX_test log_transaction_def log_execute_def)
  from 1 2 not_canonical_uuid_sample canonical_uuid_sample show ?thesis by simp
qed


section \<open>The engine's catalogue\<close>


lemma send_fault:
  "faults w (length (sent w)) = Some m \<Longrightarrow> send eng st w = (Inl m, w\<lparr>sent := sent w @ [st]\<rparr>)"
  by (simp add: send_def)

lemma send_no_fault:
  "faults w (length (sent w)) = None \<Longrightarrow>
   send eng st w =
     (case exec eng st (database w) of
        Inl m \<Rightarrow> (Inl m, w\<lparr>sent := sent w @ [st]\<rparr>)
      | Inr (r, d) \<Rightarrow> (Inr r, w\<lparr>sent := sent w @ [st], database := d\<rparr>))"
  by (simp add: send_def split: sum.splits)


lemma map_of_map_key:
  "map_of (map (\<lambda>(n, v). if n = k then (n, f v) else (n, v)) xs) k' =
     (if k' = k then map_option f (map_of xs k) else map_of xs k')"
  by (induction xs) auto

lemma map_fst_map_key:
  "map fst (map (\<lambda>(n, v). if n = k then (n, f v) else (n, v)) xs) = map fst xs"
  by (induction xs) auto

lemma has_schema_map_of: "has_schema d s \<longleftrightarrow> map_of (schemata d) s \<noteq> None"
  by (simp add: has_schema_def map_of_eq_None_iff)

lemma has_table_rows: "has_table d s t \<longleftrightarrow> table_rows d s t \<noteq> None"
  by (simp add: has_table_def table_rows_def dom_map_of_conv_image_fst [symmetric] domIff
      split: option.splits)


lemma has_schema_modify [simp]: "has_schema (modify_schema s f d) s' = has_schema d s'"
  by (simp add: has_schema_map_of modify_schema_def map_of_map_key)


lemma table_rows_search_path [simp]:
  "table_rows (d\<lparr>search_path := p\<rparr>) s t = table_rows d s t"
  by (simp add: table_rows_def)



lemma applied_hashes_search_path [simp]:
  "applied_hashes (d\<lparr>search_path := p\<rparr>) s = applied_hashes d s"
  by (simp add: applied_hashes_def)

section \<open>Applying migrations: the loop\<close>








lemma has_schema_search_path [simp]:
  "has_schema (d\<lparr>search_path := p\<rparr>) s = has_schema d s"
  by (simp add: has_schema_def)

lemma has_table_search_path [simp]:
  "has_table (d\<lparr>search_path := p\<rparr>) s t = has_table d s t"
  by (simp add: has_table_def)








lemmas eval_simps =
  applyMigrations_def sample_world_def tenant_files_def send_def Let_def
  has_schema_def has_table_def table_rows_def modify_schema_def append_row_def table_engine_def
  select_hashes_def now_def migrations_table_def quoted_text_denotes_def squote_def
  applied_hashes_def



lemma entry_statements_Cons:
  "entry_statements i f (t # ts) = entry_statements i f [t] \<union> entry_statements i f ts"
  by (auto simp: entry_statements_def)



section \<open>Applying migrations: the claims\<close>










text \<open>
  Claim C9. When the journal has no entries (the list is empty or the \<^verbatim>\<open>entries\<close>
  property is missing), \<open>applyMigrations\<close> leaves the catalogue as it is, whatever the
  connection does, and sends nothing but the two search path statements: in particular it
  does not create the tracking table. When these two statements do not fail it returns
  successfully, having set the search path.
\<close>

theorem applyMigrations_no_entries:
  assumes "journal (files w migrationsFolder) = Some (Journal entries)"
    and "entries = None \<or> entries = Some []"
  shows "schemata (database (snd (applyMigrations eng schemaName migrationsFolder w))) =
           schemata (database w) \<and>
         has_table (database (snd (applyMigrations eng schemaName migrationsFolder w)))
             schemaName migrations_table =
           has_table (database w) schemaName migrations_table \<and>
         set (sent (snd (applyMigrations eng schemaName migrationsFolder w))) \<subseteq>
           set (sent w) \<union> {SetSearchPath (escapeSchemaName schemaName), ShowSearchPath} \<and>
         (faults w (length (sent w)) = None \<and> faults w (Suc (length (sent w))) = None \<longrightarrow>
          applyMigrations eng schemaName migrationsFolder w =
           (Inr 0,
            w\<lparr>sent := sent w @ [SetSearchPath (escapeSchemaName schemaName), ShowSearchPath],
              database := (database w)\<lparr>search_path := [schemaName, ''public'']\<rparr>\<rparr>))"
proof -
  have same: "schemata (database (snd (applyMigrations eng schemaName migrationsFolder w))) =
      schemata (database w)"
    using assms
    by (auto simp: applyMigrations_def send_def Let_def split: option.splits sum.splits prod.splits)
  then have "has_table (database (snd (applyMigrations eng schemaName migrationsFolder w)))
      schemaName migrations_table = has_table (database w) schemaName migrations_table"
    by (simp add: has_table_def)
  moreover have "set (sent (snd (applyMigrations eng schemaName migrationsFolder w))) \<subseteq>
      set (sent w) \<union> {SetSearchPath (escapeSchemaName schemaName), ShowSearchPath}"
    using assms
    by (auto simp: applyMigrations_def send_def Let_def split: option.splits sum.splits prod.splits)
  moreover have "faults w (length (sent w)) = None \<and> faults w (Suc (length (sent w))) = None \<longrightarrow>
      applyMigrations eng schemaName migrationsFolder w =
       (Inr 0,
        w\<lparr>sent := sent w @ [SetSearchPath (escapeSchemaName schemaName), ShowSearchPath],
          database := (database w)\<lparr>search_path := [schemaName, ''public'']\<rparr>\<rparr>)"
    using assms
    by (auto simp: applyMigrations_def send_def Let_def split: option.splits sum.splits prod.splits)
  ultimately show ?thesis
    using same by blast
qed

text \<open>The statement at work on a schema provisioned against an empty journal.\<close>

theorem applyMigrations_no_entries_witness:
  "journal (files w_empty demo_folder) = Some (Journal (Some [])) \<and>
   faults w_empty (length (sent w_empty)) = None \<and>
   faults w_empty (Suc (length (sent w_empty))) = None \<and>
   fst (applyMigrations table_engine ''tenant_a'' demo_folder w_empty) = Inr 0 \<and>
   \<not> has_table (database (snd (applyMigrations table_engine ''tenant_a'' demo_folder w_empty)))
        ''tenant_a'' migrations_table"
proof -
  have j: "journal (files w_empty demo_folder) = Some (Journal (Some []))"
    by (simp add: w_empty_def demo_folder_def sample_world_def tenant_files_def)
  have q: "faults w_empty (length (sent w_empty)) = None"
    "faults w_empty (Suc (length (sent w_empty))) = None"
    by (simp_all add: w_empty_def sample_world_def)
  have t: "\<not> has_table (database w_empty) ''tenant_a'' migrations_table"
    by (simp add: w_empty_def sample_world_def has_table_def)
  from applyMigrations_no_entries [OF j, of table_engine "''tenant_a''"] q
  have "applyMigrations table_engine ''tenant_a'' demo_folder w_empty =
      (Inr 0,
       w_empty\<lparr>sent := sent w_empty @ [SetSearchPath (escapeSchemaName ''tenant_a''), ShowSearchPath],
         database := (database w_empty)\<lparr>search_path := [''tenant_a'', ''public'']\<rparr>\<rparr>)"
    by simp
  with j q t show ?thesis by simp
qed

section \<open>Provisioning a tenant schema\<close>

lemma drop_schema_gone:
  "\<not> has_schema (d\<lparr>schemata := filter (\<lambda>(n, ts). n \<noteq> s) (schemata d)\<rparr>) s"
  by (auto simp: has_schema_def)

text \<open>
  Claim C5. Whatever fails inside the \<^verbatim>\<open>try\<close> block of
  \<open>createTenantSchemaWithMigrations\<close> (creating the schema, applying the migrations or
  verifying the result), the function sends \<^verbatim>\<open>DROP SCHEMA IF EXISTS ... CASCADE\<close>
  for the schema and then throws the error of the \<^verbatim>\<open>try\<close> block. When the drop
  itself fails, that failure is printed by \<^verbatim>\<open>console.error\<close> and the error thrown
  is still the original one; when the drop succeeds the schema is gone.
\<close>

theorem createTenantSchemaWithMigrations_cleanup:
  assumes valid: "validateSchemaName schemaName = Inr ()"
    and failed: "provision eng schemaName (createPostgresClient w) = (Inl error, w1)"
  shows "fst (createTenantSchemaWithMigrations eng schemaName w) = Inl error \<and>
         sent (snd (createTenantSchemaWithMigrations eng schemaName w)) =
           sent w1 @ [DropSchema (escapeSchemaName schemaName)] \<and>
         (\<forall>cleanupError. faults w1 (length (sent w1)) = Some cleanupError \<longrightarrow>
            stderr (snd (createTenantSchemaWithMigrations eng schemaName w)) =
              stderr w1 @ [FailedToCleanup schemaName cleanupError] \<and>
            database (snd (createTenantSchemaWithMigrations eng schemaName w)) = database w1) \<and>
         (faults w1 (length (sent w1)) = None \<longrightarrow>
            \<not> has_schema (database (snd (createTenantSchemaWithMigrations eng schemaName w)))
                 schemaName \<and>
            stderr (snd (createTenantSchemaWithMigrations eng schemaName w)) = stderr w1)"
proof (cases "faults w1 (length (sent w1))")
  case None
  with valid failed show ?thesis
    by (simp add: createTenantSchemaWithMigrations_def send_no_fault drop_schema_gone)
next
  case (Some m)
  with valid failed show ?thesis
    by (simp add: createTenantSchemaWithMigrations_def send_fault)
qed

text \<open>
  Claim C8. When the schema has been created and the migrations applied, and
  \<^verbatim>\<open>dummy_table\<close> is missing from the tenant schema, the error thrown is the
  missing-table message followed by the note that the table exists in the public schema
  when it does exist there, and the missing-table message alone when it does not; the two
  differ.
\<close>

theorem createTenantSchemaWithMigrations_misrouted:
  assumes valid: "validateSchemaName schemaName = Inr ()"
    and created: "send eng (CreateSchema (escapeSchemaName schemaName)) (createPostgresClient w) =
                    (Inr q, w1)"
    and migrated: "applyMigrations eng schemaName (tenant_migrations_folder w1) w1 = (Inr n, w2)"
    and quiet: "\<forall>k\<ge>length (sent w2). faults w2 k = None"
    and absent: "\<not> has_table (database w2) schemaName ''dummy_table''"
  shows "fst (createTenantSchemaWithMigrations eng schemaName w) =
           Inl (if has_table (database w2) ''public'' ''dummy_table''
                then verification_error (database w2) schemaName @
                     '' Note: dummy_table exists in public schema instead.''
                else verification_error (database w2) schemaName) \<and>
         verification_error (database w2) schemaName @
           '' Note: dummy_table exists in public schema instead.'' \<noteq>
         verification_error (database w2) schemaName"
proof -
  from quiet have q: "faults w2 (length (sent w2)) = None"
    "faults w2 (Suc (length (sent w2))) = None"
    "faults w2 (Suc (Suc (length (sent w2)))) = None"
    "faults w2 (Suc (Suc (Suc (length (sent w2))))) = None"
    by simp_all
  have "fst (provision eng schemaName (createPostgresClient w)) =
           Inl (if has_table (database w2) ''public'' ''dummy_table''
                then verification_error (database w2) schemaName @
                     '' Note: dummy_table exists in public schema instead.''
                else verification_error (database w2) schemaName)"
    using created migrated q absent
    by (simp add: provision_def send_no_fault verification_error_def Let_def)
  with valid show ?thesis
    by (auto simp: createTenantSchemaWithMigrations_def split: prod.splits sum.splits)
qed

lemmas validate_simps =
  validateSchemaName_def NAME_REGEX_def atom_matches_def lower_letters_def
  upper_letters_def digit_chars_def toLowerCase_def reservedKeywords_def

lemmas run_simps =
  createTenantSchemaWithMigrations_def provision_def createPostgresClient_def
  tenant_migrations_folder_def table_names_def less_eq_char_def less_char_def

lemma misrouted_run:
  "fst (createTenantSchemaWithMigrations table_engine ''tenant_a'' w_misrouted) =
     Inl (''dummy_table was not created in tenant schema tenant_a. '' @
          ''Migration execution may have failed. '' @
          ''Tables found in schema: __drizzle_migrations, other_table'' @
          '' Note: dummy_table exists in public schema instead.'')"
  by (simp add: w_misrouted_def validate_simps run_simps eval_simps)

lemma down_run:
  "createTenantSchemaWithMigrations table_engine ''tenant_a'' w_down =
     (Inl ''connection lost'',
      w_down\<lparr>sent := [CreateSchema (escapeSchemaName ''tenant_a''),
                       DropSchema (escapeSchemaName ''tenant_a'')],
             stderr := [FailedToCleanup ''tenant_a'' ''connection still lost'']\<rparr>)"
  by (simp add: w_down_def validate_simps run_simps eval_simps)

text \<open>
  The statement at work on a connection that is lost when the schema is created and still
  lost when it is dropped: the caller gets the first error, the second is printed.
\<close>

theorem createTenantSchemaWithMigrations_cleanup_witness:
  "validateSchemaName ''tenant_a'' = Inr () \<and>
   fst (provision table_engine ''tenant_a'' (createPostgresClient w_down)) = Inl ''connection lost'' \<and>
   faults (snd (provision table_engine ''tenant_a'' (createPostgresClient w_down)))
     (length (sent (snd (provision table_engine ''tenant_a'' (createPostgresClient w_down))))) =
     Some ''connection still lost'' \<and>
   fst (createTenantSchemaWithMigrations table_engine ''tenant_a'' w_down) = Inl ''connection lost'' \<and>
   stderr (snd (createTenantSchemaWithMigrations table_engine ''tenant_a'' w_down)) =
     [FailedToCleanup ''tenant_a'' ''connection still lost'']"
proof -
  let ?w1 = "snd (provision table_engine ''tenant_a'' (createPostgresClient w_down))"
  have valid: "validateSchemaName ''tenant_a'' = Inr ()"
    by (simp add: validate_simps)
  have p: "provision table_engine ''tenant_a'' (createPostgresClient w_down) =
      (Inl ''connection lost'',
       w_down\<lparr>sent := [CreateSchema (escapeSchemaName ''tenant_a'')]\<rparr>)"
    by (simp add: w_down_def run_simps eval_simps)
  then have failed: "provision table_engine ''tenant_a'' (createPostgresClient w_down) =
      (Inl ''connection lost'', ?w1)"
    by simp
  have f: "faults ?w1 (length (sent ?w1)) = Some ''connection still lost''"
    by (simp add: p) (simp add: w_down_def)
  have e: "stderr ?w1 = []"
    by (simp add: p) (simp add: w_down_def sample_world_def)
  from createTenantSchemaWithMigrations_cleanup [OF valid failed] f e valid p
  show ?thesis by simp
qed

text \<open>
  The statement at work where the migration creates another table and the public schema has
  a \<^verbatim>\<open>dummy_table\<close>.
\<close>

theorem createTenantSchemaWithMigrations_misrouted_witness:
  "validateSchemaName ''tenant_a'' = Inr () \<and>
   \<not> has_table
        (database (snd (applyMigrations table_engine ''tenant_a'' demo_folder
           (snd (send table_engine (CreateSchema (escapeSchemaName ''tenant_a''))
                  (createPostgresClient w_misrouted))))))
        ''tenant_a'' ''dummy_table'' \<and>
   has_table
        (database (snd (applyMigrations table_engine ''tenant_a'' demo_folder
           (snd (send table_engine (CreateSchema (escapeSchemaName ''tenant_a''))
                  (createPostgresClient w_misrouted))))))
        ''public'' ''dummy_table'' \<and>
   fst (createTenantSchemaWithMigrations table_engine ''tenant_a'' w_misrouted) =
     Inl (''dummy_table was not created in tenant schema tenant_a. '' @
          ''Migration execution may have failed. '' @
          ''Tables found in schema: __drizzle_migrations, other_table'' @
          '' Note: dummy_table exists in public schema instead.'')"
proof -
  let ?w1 = "snd (send table_engine (CreateSchema (escapeSchemaName ''tenant_a''))
                (createPostgresClient w_misrouted))"
  let ?w2 = "snd (applyMigrations table_engine ''tenant_a'' demo_folder ?w1)"
  have valid: "validateSchemaName ''tenant_a'' = Inr ()"
    by (simp add: validate_simps)
  have w1: "send table_engine (CreateSchema (escapeSchemaName ''tenant_a''))
       (createPostgresClient w_misrouted) =
     (Inr Done, w_misrouted\<lparr>sent := [CreateSchema (escapeSchemaName ''tenant_a'')],
        database := \<lparr>schemata = [(''public'', [(''dummy_table'', [])]), (''tenant_a'', [])],
                     schema_tracker = [], search_path = [''public'']\<rparr>\<rparr>)"
    by (simp add: w_misrouted_def run_simps eval_simps)
  then have created: "send table_engine (CreateSchema (escapeSchemaName ''tenant_a''))
       (createPostgresClient w_misrouted) = (Inr Done, ?w1)"
    by simp
  have folder: "tenant_migrations_folder ?w1 = demo_folder"
    by (simp add: w1) (simp add: w_misrouted_def sample_world_def tenant_migrations_folder_def
        demo_folder_def)
  have w2: "applyMigrations table_engine ''tenant_a'' demo_folder ?w1 =
     (Inr 1, w_misrouted\<lparr>sent := [CreateSchema (escapeSchemaName ''tenant_a''),
          SetSearchPath (escapeSchemaName ''tenant_a''), ShowSearchPath,
          CreateMigrationsTable (escapeSchemaName ''tenant_a''),
          SelectHashes (escapeSchemaName ''tenant_a''),
          Script ''other_table'', InsertMigration (escapeSchemaName ''tenant_a'') ''0000_init'' 1006],
        database := \<lparr>schemata = [(''public'', [(''dummy_table'', [])]),
              (''tenant_a'', [(''__drizzle_migrations'', [(''0000_init'', 1006)]),
                              (''other_table'', [])])],
            schema_tracker = [], search_path = [''tenant_a'', ''public'']\<rparr>\<rparr>)"
    by (simp add: w1) (simp add: w_misrouted_def demo_folder_def eval_simps)
  then have migrated:
    "applyMigrations table_engine ''tenant_a'' (tenant_migrations_folder ?w1) ?w1 = (Inr 1, ?w2)"
    by (simp add: folder)
  have quiet: "\<forall>k\<ge>length (sent ?w2). faults ?w2 k = None"
    by (simp add: w2) (simp add: w_misrouted_def sample_world_def)
  have absent: "\<not> has_table (database ?w2) ''tenant_a'' ''dummy_table''"
    by (simp add: w2) (simp add: has_table_def)
  have public: "has_table (database ?w2) ''public'' ''dummy_table''"
    by (simp add: w2) (simp add: has_table_def)
  have msg: "verification_error (database ?w2) ''tenant_a'' =
      ''dummy_table was not created in tenant schema tenant_a. '' @
      ''Migration execution may have failed. '' @
      ''Tables found in schema: __drizzle_migrations, other_table''"
    by (simp add: w2) (simp add: verification_error_def table_names_def less_eq_char_def
        less_char_def)
  from createTenantSchemaWithMigrations_misrouted [OF valid created migrated quiet absent]
    public msg valid absent
  show ?thesis by simp
qed

section \<open>Migrating all tenant schemas\<close>








section \<open>The health check: classification\<close>

lemma classified_push [simp]: "classified name results (push_unhealthy name issue results)"
  by (simp add: classified_def push_unhealthy_def)

lemma classified_healthy [simp]:
  "classified name results (results\<lparr>healthySchemas := healthySchemas results @ [name]\<rparr>)"
  by (simp add: classified_def)

lemma send_cases:
  assumes "\<And>e w1. P (f e w1)" and "\<And>r w1. P (g r w1)"
  shows "P (case send eng st w of (Inl e, w1) \<Rightarrow> f e w1 | (Inr r, w1) \<Rightarrow> g r w1)"
  using assms by (simp split: prod.splits sum.splits)

lemma check_migration_status_one:
  "classified name results (fst (check_migration_status eng expected name results w))"
  unfolding check_migration_status_def
  by (rule send_cases; simp; rule send_cases; simp add: Let_def)

lemma check_schema_classified:
  "classified name results (fst (check_schema eng expected name results w))"
  unfolding check_schema_def
  by (rule send_cases; simp; rule send_cases; simp; rule send_cases;
      simp add: check_migration_status_one)


lemma check_schema_one:
  assumes "check_schema eng expected name results w = (results', w')"
  shows "(healthySchemas results' = healthySchemas results @ [name] \<and>
          unhealthySchemas results' = unhealthySchemas results) \<or>
         (\<exists>issue. unhealthySchemas results' = unhealthySchemas results @ [(name, issue)] \<and>
                  healthySchemas results' = healthySchemas results)"
  using check_schema_classified [of name results eng expected w] assms
  by (simp add: classified_def)

lemma mismatch_iff:
  "(length (missingMigrations expected applied) > 0 \<or> length (extraMigrations expected applied) > 0)
     \<longleftrightarrow> set expected \<noteq> set applied"
  by (auto simp: missingMigrations_def extraMigrations_def filter_empty_conv)

lemma check_migration_status_quiet:
  assumes q: "faults w (length (sent w)) = None" "faults w (Suc (length (sent w))) = None"
  shows "fst (check_migration_status eng expected name results w) =
     (if \<not> has_table (database w) name ''__drizzle_migrations''
      then push_unhealthy name ''__drizzle_migrations table does not exist'' results
      else if set expected \<noteq> set (applied_hashes (database w) name)
      then push_unhealthy name
             (mismatch_issue (missingMigrations expected (applied_hashes (database w) name))
                (extraMigrations expected (applied_hashes (database w) name))) results
      else results\<lparr>healthySchemas := healthySchemas results @ [name]\<rparr>)"
proof (cases "has_table (database w) name ''__drizzle_migrations''")
  case False
  with q show ?thesis
    by (simp add: check_migration_status_def send_no_fault)
next
  case True
  then obtain rs where rs: "table_rows (database w) name migrations_table = Some rs"
    by (auto simp: has_table_rows migrations_table_def)
  then have a: "applied_hashes (database w) name = map fst rs"
    by (simp add: applied_hashes_def)
  from True q rs a mismatch_iff [of expected "map fst rs"] show ?thesis
    by (simp add: check_migration_status_def send_no_fault select_hashes_def Let_def)
qed

lemma check_schema_quiet:
  assumes quiet: "\<forall>k\<ge>length (sent w). faults w k = None"
  shows "fst (check_schema eng expected name results w) =
     (case audit_defect (database w) expected name of
        None \<Rightarrow> results\<lparr>healthySchemas := healthySchemas results @ [name]\<rparr>
      | Some issue \<Rightarrow> push_unhealthy name issue results)"
proof -
  from quiet have q: "faults w (length (sent w)) = None"
    "faults w (Suc (length (sent w))) = None"
    "faults w (Suc (Suc (length (sent w)))) = None"
    "faults w (Suc (Suc (Suc (length (sent w))))) = None"
    "faults w (Suc (Suc (Suc (Suc (length (sent w)))))) = None"
    by simp_all
  show ?thesis
  proof (cases "has_schema (database w) name \<and> has_table (database w) name ''dummy_table''")
    case False
    with q show ?thesis
      by (auto simp: check_schema_def send_no_fault audit_defect_def)
  next
    case True
    let ?w3 = "w\<lparr>sent := sent w @ [SchemaExists name, SetSearchPath (escapeSchemaName name),
                    TableExists name ''dummy_table''],
                database := (database w)\<lparr>search_path := [name, ''public'']\<rparr>\<rparr>"
    from True q have "check_schema eng expected name results w =
        check_migration_status eng expected name results ?w3"
      by (simp add: check_schema_def send_no_fault)
    moreover from q have "faults ?w3 (length (sent ?w3)) = None"
      "faults ?w3 (Suc (length (sent ?w3))) = None"
      by simp_all
    ultimately show ?thesis
      using True by (simp add: check_migration_status_quiet audit_defect_def)
  qed
qed


section \<open>The health check: the report\<close>

lemma sql_like_any [simp]: "sql_like ''%'' s"
  by (induction s) simp_all

lemma sql_like_pg: "sql_like ''pg_%'' n \<longleftrightarrow> (\<exists>c r. n = CHR ''p'' # CHR ''g'' # c # r)"
proof (cases n)
  case Nil
  then show ?thesis by simp
next
  case (Cons a n1)
  show ?thesis
  proof (cases n1)
    case Nil
    with Cons show ?thesis by simp
  next
    case (Cons b n2)
    with \<open>n = a # n1\<close> show ?thesis
      by (cases n2) auto
  qed
qed

lemma same_catalogue_refl [simp]: "same_catalogue w w"
  by (simp add: same_catalogue_def)

lemma same_catalogue_trans: "same_catalogue w w1 \<Longrightarrow> same_catalogue w1 w2 \<Longrightarrow> same_catalogue w w2"
  by (simp add: same_catalogue_def)

lemma exec_reads_only:
  "reads_only st \<Longrightarrow> exec eng st d = Inr (r, d') \<Longrightarrow>
   schemata d' = schemata d \<and> schema_tracker d' = schema_tracker d"
  by (cases st) (auto simp: select_hashes_def split: option.splits)

lemma send_reads_only:
  assumes "reads_only st"
  shows "same_catalogue w (snd (send eng st w))"
proof (cases "faults w (length (sent w))")
  case (Some m)
  then show ?thesis by (simp add: send_fault same_catalogue_def)
next
  case None
  show ?thesis
  proof (cases "exec eng st (database w)")
    case (Inl m)
    with None show ?thesis by (simp add: send_no_fault same_catalogue_def)
  next
    case (Inr p)
    obtain r d where p: "p = (r, d)" by (cases p)
    from exec_reads_only [OF assms] Inr p
    have "schemata d = schemata (database w) \<and> schema_tracker d = schema_tracker (database w)"
      by simp
    with None Inr p show ?thesis by (simp add: send_no_fault same_catalogue_def)
  qed
qed

lemma send_cases_from:
  assumes "R (snd (send eng st w))"
    and "\<And>e w1. R w1 \<Longrightarrow> P (f e w1)" and "\<And>r w1. R w1 \<Longrightarrow> P (g r w1)"
  shows "P (case send eng st w of (Inl e, w1) \<Rightarrow> f e w1 | (Inr r, w1) \<Rightarrow> g r w1)"
  using assms by (cases "send eng st w") (auto split: sum.splits)

lemma check_migration_status_same:
  "same_catalogue w (snd (check_migration_status eng expected name results w))"
  unfolding check_migration_status_def
proof (rule send_cases_from [where R = "same_catalogue w"], goal_cases)
  case 1
  show ?case by (simp add: send_reads_only)
next
  case (2 e w1)
  then show ?case by simp
next
  case (3 r w1)
  have "same_catalogue w
      (snd (case send eng (SelectHashesById (escapeSchemaName name)) w1 of
          (Inl e, w2) \<Rightarrow> (push_unhealthy name (''Migration check failed: '' @ e) results, w2)
        | (Inr applied, w2) \<Rightarrow>
            (let appliedMigrations = rows_of applied;
                 missing = missingMigrations expected appliedMigrations;
                 extra = extraMigrations expected appliedMigrations
             in if length missing > 0 \<or> length extra > 0
                then (push_unhealthy name (mismatch_issue missing extra) results, w2)
                else (results\<lparr>healthySchemas := healthySchemas results @ [name]\<rparr>, w2))))"
  proof (rule send_cases_from [where R = "same_catalogue w"], goal_cases)
    case 1
    from 3 send_reads_only [of "SelectHashesById (escapeSchemaName name)" w1 eng]
    show ?case by (auto intro: same_catalogue_trans)
  next
    case (2 e w2)
    then show ?case by simp
  next
    case (3 r w2)
    then show ?case by (simp add: Let_def)
  qed
  with 3 show ?case by simp
qed

lemma check_schema_same:
  "same_catalogue w (snd (check_schema eng expected name results w))"
proof -
  obtain r1 w1 where s1: "send eng (SchemaExists name) w = (r1, w1)"
    by (cases "send eng (SchemaExists name) w")
  obtain r2 w2 where s2: "send eng (SetSearchPath (escapeSchemaName name)) w1 = (r2, w2)"
    by (cases "send eng (SetSearchPath (escapeSchemaName name)) w1")
  obtain r3 w3 where s3: "send eng (TableExists name ''dummy_table'') w2 = (r3, w3)"
    by (cases "send eng (TableExists name ''dummy_table'') w2")
  have c1: "same_catalogue w w1"
    using send_reads_only [of "SchemaExists name" w eng] s1 by simp
  have c2: "same_catalogue w w2"
    using send_reads_only [of "SetSearchPath (escapeSchemaName name)" w1 eng] s2 c1
    by (auto intro: same_catalogue_trans)
  have c3: "same_catalogue w w3"
    using send_reads_only [of "TableExists name ''dummy_table''" w2 eng] s3 c2
    by (auto intro: same_catalogue_trans)
  have c4: "same_catalogue w (snd (check_migration_status eng expected name results w3))"
    using c3 check_migration_status_same [of w3 eng expected name results]
    by (rule same_catalogue_trans)
  from s1 s2 s3 c1 c2 c3 c4 show ?thesis
    by (simp add: check_schema_def split: sum.splits)
qed

lemma check_each_same:
  "same_catalogue w (snd (check_each eng expected names results w))"
proof (induction names arbitrary: results w)
  case Nil
  show ?case by simp
next
  case (Cons name rest)
  obtain r1 w1 where c: "check_schema eng expected name results w = (r1, w1)"
    by (cases "check_schema eng expected name results w")
  with check_schema_same [of w eng expected name results] have "same_catalogue w w1"
    by simp
  with Cons.IH [of w1 r1] c show ?case
    by (auto intro: same_catalogue_trans)
qed

lemma check_each_keeps:
  "set (unhealthySchemas results) \<subseteq>
     set (unhealthySchemas (fst (check_each eng expected names results w)))"
proof (induction names arbitrary: results w)
  case Nil
  show ?case by simp
next
  case (Cons name rest)
  obtain r1 w1 where c: "check_schema eng expected name results w = (r1, w1)"
    by (cases "check_schema eng expected name results w")
  from check_schema_one [OF c] have "set (unhealthySchemas results) \<subseteq> set (unhealthySchemas r1)"
    by auto
  with Cons.IH [of r1 w1] c show ?case
    by auto
qed

lemma check_each_total:
  "length (healthySchemas (fst (check_each eng expected names results w))) +
   length (unhealthySchemas (fst (check_each eng expected names results w))) =
   length (healthySchemas results) + length (unhealthySchemas results) + length names"
proof (induction names arbitrary: results w)
  case Nil
  show ?case by simp
next
  case (Cons name rest)
  obtain r1 w1 where c: "check_schema eng expected name results w = (r1, w1)"
    by (cases "check_schema eng expected name results w")
  from check_schema_one [OF c]
  have "length (healthySchemas r1) + length (unhealthySchemas r1) =
      length (healthySchemas results) + length (unhealthySchemas results) + 1"
    by auto
  with Cons.IH [of r1 w1] c show ?case
    by simp
qed

lemma check_each_dangling:
  assumes "\<forall>k. faults w k = None" and "name \<in> set names"
    and "\<not> has_schema (database w) name"
  shows "(name, ''Schema does not exist in database'') \<in>
     set (unhealthySchemas (fst (check_each eng expected names results w)))"
  using assms
proof (induction names arbitrary: results w)
  case Nil
  then show ?case by simp
next
  case (Cons n rest)
  obtain r1 w1 where c: "check_schema eng expected n results w = (r1, w1)"
    by (cases "check_schema eng expected n results w")
  from check_schema_same [of w eng expected n results] c have same: "same_catalogue w w1"
    by simp
  show ?case
  proof (cases "n = name")
    case True
    from Cons.prems(1) have "\<forall>k\<ge>length (sent w). faults w k = None"
      by simp
    from check_schema_quiet [OF this, of eng expected n results] Cons.prems(3) True c
    have "r1 = push_unhealthy name ''Schema does not exist in database'' results"
      by (simp add: audit_defect_def)
    then have "(name, ''Schema does not exist in database'') \<in> set (unhealthySchemas r1)"
      by (simp add: push_unhealthy_def)
    with check_each_keeps [of r1 eng expected rest w1] c show ?thesis
      by auto
  next
    case False
    with Cons.prems(2) have "name \<in> set rest"
      by simp
    moreover from same Cons.prems(1) have "\<forall>k. faults w1 k = None"
      by (simp add: same_catalogue_def)
    moreover from same Cons.prems(3) have "\<not> has_schema (database w1) name"
      by (simp add: same_catalogue_def has_schema_def)
    ultimately show ?thesis
      using Cons.IH [of w1 r1] c by simp
  qed
qed

text \<open>
  What the health check reports on a connection that does not fail: one classification per
  tracked schema; every tracked name whose schema is absent from the database as unhealthy
  with the defect \<^verbatim>\<open>Schema does not exist in database\<close>; and as orphaned exactly the
  schemas of the database that are not tracked, not on the exclusion list, and whose name
  is not \<^verbatim>\<open>pg\<close> followed by at least one character, which is what
  \<^verbatim>\<open>NOT LIKE 'pg_%'\<close> lets through.
\<close>

lemma healthCheck_report:
  assumes quiet: "\<forall>k. faults w k = None"
  shows "\<exists>results w'.
     healthCheck eng w = (Inr results, w') \<and>
     totalSchemas results = length (schema_tracker (database w)) \<and>
     length (healthySchemas results) + length (unhealthySchemas results) =
       length (schema_tracker (database w)) \<and>
     (\<forall>name\<in>set (schema_tracker (database w)). \<not> has_schema (database w) name \<longrightarrow>
        (name, ''Schema does not exist in database'') \<in> set (unhealthySchemas results)) \<and>
     set (orphanedSchemas results) =
       {n. has_schema (database w) n \<and> n \<notin> set (schema_tracker (database w)) \<and>
           n \<notin> set excluded_schemas \<and> \<not> (\<exists>c r. n = CHR ''p'' # CHR ''g'' # c # r)}"
proof -
  let ?tracked = "schema_tracker (database w)"
  let ?w1 = "(createPostgresClient w)\<lparr>sent := sent w @ [SelectTracker]\<rparr>"
  let ?r0 = "\<lparr>totalSchemas = length ?tracked, healthySchemas = [], unhealthySchemas = [],
              orphanedSchemas = []\<rparr>"
  define expected where "expected =
     (case getExpectedMigrations (tenant_migrations_folder ?w1) ?w1 of Inl e \<Rightarrow> [] | Inr ms \<Rightarrow> ms)"
  from quiet have s: "send eng SelectTracker (createPostgresClient w) = (Inr (Rows ?tracked), ?w1)"
    by (simp add: send_def createPostgresClient_def)
  obtain r2 w2 where loop: "check_each eng expected ?tracked ?r0 ?w1 = (r2, w2)"
    by (cases "check_each eng expected ?tracked ?r0 ?w1")
  have q1: "\<forall>k. faults ?w1 k = None"
    using quiet by (simp add: createPostgresClient_def)
  have same: "same_catalogue ?w1 w2"
    using check_each_same [of ?w1 eng expected ?tracked ?r0] loop by simp
  then have q2: "faults w2 (length (sent w2)) = None"
    using q1 by (simp add: same_catalogue_def)
  from same have sc: "schemata (database w2) = schemata (database w)"
    by (simp add: same_catalogue_def createPostgresClient_def)
  let ?all = "sort (filter (\<lambda>n. n \<notin> set excluded_schemas \<and> \<not> sql_like ''pg_%'' n)
                     (map fst (schemata (database w))))"
  let ?res = "r2\<lparr>orphanedSchemas := filter (\<lambda>n. n \<notin> set ?tracked) ?all\<rparr>"
  from q2 sc have s3: "send eng SelectSchemaNames w2 =
      (Inr (Rows ?all), w2\<lparr>sent := sent w2 @ [SelectSchemaNames]\<rparr>)"
    by (simp add: send_no_fault)
  from s loop s3 have run: "healthCheck eng w = (Inr ?res, w2\<lparr>sent := sent w2 @ [SelectSchemaNames]\<rparr>)"
    by (simp add: healthCheck_def expected_def Let_def)
  have total: "totalSchemas ?res = length ?tracked"
  proof -
    have "totalSchemas (fst (check_each eng expected names results v)) = totalSchemas results"
      for names results v
    proof (induction names arbitrary: results v)
      case Nil
      show ?case by simp
    next
      case (Cons n rest)
      obtain ra va where c: "check_schema eng expected n results v = (ra, va)"
        by (cases "check_schema eng expected n results v")
      have "totalSchemas (fst (check_schema eng expected n results v)) = totalSchemas results"
        unfolding check_schema_def check_migration_status_def
        by (rule send_cases; simp add: push_unhealthy_def; rule send_cases;
            simp add: push_unhealthy_def; rule send_cases; simp add: push_unhealthy_def;
            rule send_cases; simp add: push_unhealthy_def; rule send_cases;
            simp add: push_unhealthy_def Let_def)
      with Cons.IH [of ra va] c show ?case by simp
    qed
    from this [of ?tracked ?r0 ?w1] loop show ?thesis by simp
  qed
  have count: "length (healthySchemas ?res) + length (unhealthySchemas ?res) = length ?tracked"
    using check_each_total [of eng expected ?tracked ?r0 ?w1] loop by simp
  have dangling: "\<forall>name\<in>set ?tracked. \<not> has_schema (database w) name \<longrightarrow>
        (name, ''Schema does not exist in database'') \<in> set (unhealthySchemas ?res)"
  proof (intro ballI impI)
    fix name
    assume n: "name \<in> set ?tracked" and a: "\<not> has_schema (database w) name"
    from a have "\<not> has_schema (database ?w1) name"
      by (simp add: has_schema_def createPostgresClient_def)
    from check_each_dangling [OF q1 n this, of eng expected ?r0] loop
    show "(name, ''Schema does not exist in database'') \<in> set (unhealthySchemas ?res)"
      by simp
  qed
  have orphans: "set (orphanedSchemas ?res) =
       {n. has_schema (database w) n \<and> n \<notin> set ?tracked \<and>
           n \<notin> set excluded_schemas \<and> \<not> (\<exists>c r. n = CHR ''p'' # CHR ''g'' # c # r)}"
    by (auto simp: has_schema_def sql_like_pg)
  from run total count dangling orphans show ?thesis
    by blast
qed

section \<open>The health check: the two scripts\<close>




























section \<open>The health check: sample runs\<close>

lemmas health_simps =
  healthCheck_def check_schema_def check_migration_status_def getExpectedMigrations_def
  push_unhealthy_def missingMigrations_def extraMigrations_def mismatch_issue_def
  excluded_schemas_def






text \<open>
  Claim C7, at an input where the code departs from it. The query that lists the schemas
  filters with \<^verbatim>\<open>NOT LIKE 'pg_%'\<close>, in which the underscore stands for any one
  character: a schema \<^verbatim>\<open>pgx\<close>, present in the database, not tracked, not on the
  exclusion list, not prefixed by \<^verbatim>\<open>pg_\<close>, and a name that
  \<open>validateSchemaName\<close> accepts, is left out of the orphaned list, while the untracked
  schema \<^verbatim>\<open>legacy\<close> beside it is listed.
\<close>

theorem healthCheck_orphan_wildcard:
  "has_schema (database w_pgx) ''pgx'' \<and>
   ''pgx'' \<notin> set (schema_tracker (database w_pgx)) \<and>
   ''pgx'' \<notin> set excluded_schemas \<and>
   \<not> prefix ''pg_'' ''pgx'' \<and>
   validateSchemaName ''pgx'' = Inr () \<and>
   fst (healthCheck table_engine w_pgx) =
     Inr \<lparr>totalSchemas = 0, healthySchemas = [], unhealthySchemas = [],
          orphanedSchemas = [''legacy'']\<rparr>"
  by (simp add: w_pgx_def health_simps validate_simps run_simps eval_simps)


end
